theory Spec2Isabelle
  imports Main "HOL-Library.Word" "HOL-Library.AList"
begin

unbundle bit_operations_syntax

section \<open>JavaScript values seen by the API client\<close>

subsection \<open>Strings\<close>

text \<open>
  A JavaScript string is a sequence of UTF-16 code units. String literals of the source
  are ASCII; \<open>lit\<close> turns such a literal into its code units.
\<close>

type_synonym jsstring = "16 word list"

definition lit :: "string \<Rightarrow> jsstring" where
  "lit s = map (\<lambda>c. of_nat (of_char c)) s"

text \<open>
  \<open>String.prototype.trim\<close> strips the code points of the productions WhiteSpace and
  LineTerminator of ECMA-262 from both ends. All of them lie in the basic plane, so each
  is one code unit.
\<close>

definition is_white_space :: "16 word \<Rightarrow> bool" where
  "is_white_space c \<longleftrightarrow>
     c \<in> {0x0009, 0x000B, 0x000C, 0x0020, 0x00A0, 0x1680, 0x202F, 0x205F, 0x3000, 0xFEFF}
     \<or> (0x2000 \<le> c \<and> c \<le> 0x200A)"

definition is_line_terminator :: "16 word \<Rightarrow> bool" where
  "is_line_terminator c \<longleftrightarrow> c \<in> {0x000A, 0x000D, 0x2028, 0x2029}"

definition trim :: "jsstring \<Rightarrow> jsstring" where
  "trim s =
     (let strip = dropWhile (\<lambda>c. is_white_space c \<or> is_line_terminator c)
      in rev (strip (rev (strip s))))"

text \<open>
  \<open>s.includes(t)\<close>: \<open>t\<close> occurs in \<open>s\<close> as a run of consecutive code units. The
  comparison is by code unit, so it distinguishes upper and lower case.
\<close>

fun starts_with :: "jsstring \<Rightarrow> jsstring \<Rightarrow> bool" where
  "starts_with s [] = True"
| "starts_with [] (d # ds) = False"
| "starts_with (c # cs) (d # ds) = (c = d \<and> starts_with cs ds)"

fun js_includes :: "jsstring \<Rightarrow> jsstring \<Rightarrow> bool" where
  "js_includes [] t = starts_with [] t"
| "js_includes (c # cs) t = (starts_with (c # cs) t \<or> js_includes cs t)"

subsection \<open>JSON values and \<open>JSON.stringify\<close>\<close>

text \<open>
  The values that \<open>resp.json()\<close> produces and that a caller hands to \<open>apiPost\<close> as
  \<open>body\<close>. Number formatting is floating-point work outside this development: a finite
  number is carried as the decimal text that \<open>Number.prototype.toString\<close> gives for it,
  which determines the number. The members of an object are listed in the order in which
  the engine enumerates its own properties.
\<close>

datatype jsnumber = Finite jsstring | NonFinite

datatype json =
    JNull
  | JBool bool
  | JNum jsnumber
  | JStr jsstring
  | JArr "json list"
  | JObj "(jsstring \<times> json) list"

definition hex_digit :: "16 word \<Rightarrow> 16 word" where
  "hex_digit d = (if d < 10 then 0x30 + d else 0x61 + (d - 10))"

definition unicode_escape :: "16 word \<Rightarrow> jsstring" where
  "unicode_escape c =
     [0x5C, 0x75] @ map (\<lambda>k. hex_digit (drop_bit k c AND 0xF)) [12, 8, 4, 0]"

definition escape_unit :: "16 word \<Rightarrow> jsstring" where
  "escape_unit c =
     (if c = 0x08 then [0x5C, 0x62]
      else if c = 0x09 then [0x5C, 0x74]
      else if c = 0x0A then [0x5C, 0x6E]
      else if c = 0x0C then [0x5C, 0x66]
      else if c = 0x0D then [0x5C, 0x72]
      else if c = 0x22 then [0x5C, 0x22]
      else if c = 0x5C then [0x5C, 0x5C]
      else if c < 0x20 then unicode_escape c
      else [c])"

definition is_high_surrogate :: "16 word \<Rightarrow> bool" where
  "is_high_surrogate c \<longleftrightarrow> 0xD800 \<le> c \<and> c \<le> 0xDBFF"

definition is_low_surrogate :: "16 word \<Rightarrow> bool" where
  "is_low_surrogate c \<longleftrightarrow> 0xDC00 \<le> c \<and> c \<le> 0xDFFF"

text \<open>
  The body of QuoteJSONString: a surrogate pair passes unchanged, a lone surrogate
  is written as an escape of four hexadecimal digits.
\<close>

fun quote_units :: "jsstring \<Rightarrow> jsstring" where
  "quote_units [] = []"
| "quote_units [c] =
     (if is_high_surrogate c \<or> is_low_surrogate c then unicode_escape c else escape_unit c)"
| "quote_units (c # d # ds) =
     (if is_high_surrogate c \<and> is_low_surrogate d then c # d # quote_units ds
      else if is_high_surrogate c \<or> is_low_surrogate c then unicode_escape c @ quote_units (d # ds)
      else escape_unit c @ quote_units (d # ds))"

definition quote_json_string :: "jsstring \<Rightarrow> jsstring" where
  "quote_json_string s = [0x22] @ quote_units s @ [0x22]"

fun join_comma :: "jsstring list \<Rightarrow> jsstring" where
  "join_comma [] = []"
| "join_comma [x] = x"
| "join_comma (x # y # ys) = x @ [0x2C] @ join_comma (y # ys)"

text \<open>\<open>JSON.stringify(v)\<close> with no replacer and no indentation.\<close>

fun JSON_stringify :: "json \<Rightarrow> jsstring" where
  "JSON_stringify JNull = lit ''null''"
| "JSON_stringify (JBool b) = (if b then lit ''true'' else lit ''false'')"
| "JSON_stringify (JNum n) = (case n of Finite digits \<Rightarrow> digits | NonFinite \<Rightarrow> lit ''null'')"
| "JSON_stringify (JStr s) = quote_json_string s"
| "JSON_stringify (JArr vs) = [0x5B] @ join_comma (map JSON_stringify vs) @ [0x5D]"
| "JSON_stringify (JObj ps) =
     [0x7B] @ join_comma (map (\<lambda>(k, v). quote_json_string k @ [0x3A] @ JSON_stringify v) ps) @ [0x7D]"

subsection \<open>Errors and promises\<close>

text \<open>
  An error object with its \<open>name\<close> and \<open>message\<close>. \<open>Error msg\<close> is \<open>new Error(msg)\<close>.
  A settled promise is a sum: \<open>Inl\<close> a rejection, \<open>Inr\<close> the value it resolved to.
\<close>

datatype exn = Exn (exn_name: jsstring) (message: jsstring)

definition Error :: "jsstring \<Rightarrow> exn" where
  "Error msg = Exn (lit ''Error'') msg"

type_synonym 'a promise = "exn + 'a"

section \<open>The transport\<close>

text \<open>
  \<open>fetch\<close> belongs to the platform. The client hands it a URL and an options object, and
  reads from the response only \<open>ok\<close>, \<open>headers.get("content-type")\<close> (\<open>null\<close>, here
  \<open>None\<close>, when the header is absent) and one of the body readers \<open>json()\<close> and
  \<open>text()\<close>, each of which may reject. \<open>resp_status\<close> is the status code, which the
  response carries too. The fields hold what these members yield. How the platform
  derives \<open>ok\<close> from the status code, and both readers from the same bytes, is not
  part of the client, so the record leaves the fields independent.
\<close>

datatype http_method = GET | POST

record request =
  req_url :: jsstring
  req_method :: http_method
  req_headers :: "(jsstring \<times> jsstring) list"
  req_body :: "jsstring option"

record response =
  resp_ok :: bool
  resp_status :: nat
  resp_content_type :: "jsstring option"
  resp_json :: "json promise"
  resp_text :: "jsstring promise"

type_synonym transport = "request \<Rightarrow> response promise"

text \<open>\<open>process.env\<close>: the variables that are set, by name.\<close>

type_synonym process_env = "jsstring \<rightharpoonup> jsstring"

section \<open>The client: \<open>dsp_frontend/src/api/client.js\<close>\<close>

definition getBackendBaseUrl :: "process_env \<Rightarrow> jsstring" where
  "getBackendBaseUrl env =
     (let envUrl = env (lit ''REACT_APP_BACKEND_URL'')
      in case envUrl of
           None \<Rightarrow> lit ''http://localhost:3001''
         | Some s \<Rightarrow> if s \<noteq> [] \<and> 0 < length (trim s) then s else lit ''http://localhost:3001'')"

text \<open>
  \<open>if (token)\<close> holds for a string that is not empty; \<open>None\<close> is an absent token.
  \<open>ToString\<close> is the conversion that a template literal applies to the token it embeds.
  \<open>body ?? {}\<close> replaces \<open>undefined\<close> (\<open>None\<close>) and \<open>null\<close> by the empty object.
  \<open>h || ""\<close> on the header value replaces \<open>null\<close> and the empty string by \<open>""\<close>.
\<close>

definition truthy :: "jsstring option \<Rightarrow> bool" where
  "truthy t = (case t of None \<Rightarrow> False | Some s \<Rightarrow> s \<noteq> [])"

fun ToString :: "jsstring option \<Rightarrow> jsstring" where
  "ToString None = lit ''undefined''"
| "ToString (Some s) = s"

definition nullish_or :: "json option \<Rightarrow> json \<Rightarrow> json" where
  "nullish_or b d = (case b of None \<Rightarrow> d | Some JNull \<Rightarrow> d | Some v \<Rightarrow> v)"

definition or_string :: "jsstring option \<Rightarrow> jsstring \<Rightarrow> jsstring" where
  "or_string h d = (case h of None \<Rightarrow> d | Some s \<Rightarrow> if s \<noteq> [] then s else d)"

text \<open>
  Each helper returns the request it handed to \<open>fetch\<close> together with the way its
  promise settles. A rejection of \<open>fetch\<close> or of a body reader is not caught and so
  rejects the helper's promise. The string that \<open>text()\<close> yields is the value \<open>JStr\<close>.
\<close>

definition apiPost ::
  "process_env \<Rightarrow> transport \<Rightarrow> jsstring \<Rightarrow> json option \<Rightarrow> jsstring option
     \<Rightarrow> request \<times> json promise" where
  "apiPost env fetch path body token =
     (let base = getBackendBaseUrl env;
          headers = [(lit ''Content-Type'', lit ''application/json'')];
          headers = (if truthy token
                     then AList.update (lit ''Authorization'') (lit ''Bearer '' @ ToString token) headers
                     else headers);
          req = \<lparr> req_url = base @ path, req_method = POST, req_headers = headers,
                  req_body = Some (JSON_stringify (nullish_or body (JObj []))) \<rparr>
      in (req,
          case fetch req of
            Inl e \<Rightarrow> Inl e
          | Inr resp \<Rightarrow>
              (let contentType = or_string (resp_content_type resp) []
               in if \<not> resp_ok resp then
                    (case (if js_includes contentType (lit ''application/json'')
                           then resp_json resp else map_sum id JStr (resp_text resp)) of
                       Inl e \<Rightarrow> Inl e
                     | Inr detail \<Rightarrow>
                         Inl (Error (case detail of JStr s \<Rightarrow> s | _ \<Rightarrow> JSON_stringify detail)))
                  else (if js_includes contentType (lit ''application/json'')
                        then resp_json resp else map_sum id JStr (resp_text resp)))))"

definition apiGet ::
  "process_env \<Rightarrow> transport \<Rightarrow> jsstring \<Rightarrow> jsstring option \<Rightarrow> request \<times> json promise" where
  "apiGet env fetch path token =
     (let base = getBackendBaseUrl env;
          headers = [];
          headers = (if truthy token
                     then AList.update (lit ''Authorization'') (lit ''Bearer '' @ ToString token) headers
                     else headers);
          req = \<lparr> req_url = base @ path, req_method = GET, req_headers = headers,
                  req_body = None \<rparr>
      in (req,
          case fetch req of
            Inl e \<Rightarrow> Inl e
          | Inr resp \<Rightarrow>
              (let contentType = or_string (resp_content_type resp) []
               in if \<not> resp_ok resp then
                    (case (if js_includes contentType (lit ''application/json'')
                           then resp_json resp else map_sum id JStr (resp_text resp)) of
                       Inl e \<Rightarrow> Inl e
                     | Inr detail \<Rightarrow>
                         Inl (Error (case detail of JStr s \<Rightarrow> s | _ \<Rightarrow> JSON_stringify detail)))
                  else (if js_includes contentType (lit ''application/json'')
                        then resp_json resp else map_sum id JStr (resp_text resp)))))"

section \<open>Notions used in the statements\<close>

text \<open>The two components of what a helper returns.\<close>

definition sent :: "request \<times> json promise \<Rightarrow> request" where
  "sent r = fst r"

definition settled :: "request \<times> json promise \<Rightarrow> json promise" where
  "settled r = snd r"

text \<open>
  The expression \<open>contentType.includes("application/json") ? resp.json() : resp.text()\<close>,
  which both helpers evaluate on either branch, and the message that the thrown error is
  given.
\<close>

definition decode_body :: "response \<Rightarrow> json promise" where
  "decode_body resp =
     (if js_includes (or_string (resp_content_type resp) []) (lit ''application/json'')
      then resp_json resp else map_sum id JStr (resp_text resp))"

definition failure_message :: "json \<Rightarrow> jsstring" where
  "failure_message detail = (case detail of JStr s \<Rightarrow> s | _ \<Rightarrow> JSON_stringify detail)"

definition settle_response :: "response \<Rightarrow> json promise" where
  "settle_response resp =
     (if \<not> resp_ok resp then
        (case decode_body resp of
           Inl e \<Rightarrow> Inl e
         | Inr detail \<Rightarrow> Inl (Error (failure_message detail)))
      else decode_body resp)"

text \<open>A transport that answers every request with the same response, as a test double does.\<close>

definition answering :: "response \<Rightarrow> transport" where
  "answering resp req = Inr resp"

text \<open>A transport that reaches no server: \<open>fetch\<close> rejects every request.\<close>

definition unreachable :: transport where
  "unreachable req = Inl (Exn (lit ''TypeError'') (lit ''Failed to fetch''))"

text \<open>
  Following the specification's words, not the source: a match of the content type
  that ignores the case of ASCII letters, and the decoding it would select.
\<close>

definition ascii_lower :: "16 word \<Rightarrow> 16 word" where
  "ascii_lower c = (if 0x41 \<le> c \<and> c \<le> 0x5A then c + 0x20 else c)"

definition spec_includes_ignoring_case :: "jsstring \<Rightarrow> jsstring \<Rightarrow> bool" where
  "spec_includes_ignoring_case s t = js_includes (map ascii_lower s) (map ascii_lower t)"

definition spec_decode_body :: "response \<Rightarrow> json promise" where
  "spec_decode_body resp =
     (if spec_includes_ignoring_case (or_string (resp_content_type resp) []) (lit ''application/json'')
      then resp_json resp else map_sum id JStr (resp_text resp))"

section \<open>Basic facts\<close>

lemma starts_with_iff: "starts_with s t \<longleftrightarrow> (\<exists>q. s = t @ q)"
  by (induction s t rule: starts_with.induct) auto

lemma js_includes_iff: "js_includes s t \<longleftrightarrow> (\<exists>p q. s = p @ t @ q)"
proof (induction s)
  case Nil
  show ?case by (cases t) simp_all
next
  case (Cons c cs)
  show ?case
  proof
    assume "js_includes (c # cs) t"
    then consider "starts_with (c # cs) t" | "js_includes cs t" by auto
    then show "\<exists>p q. c # cs = p @ t @ q"
    proof cases
      case 1
      then obtain q where "c # cs = t @ q" by (auto simp: starts_with_iff)
      then have "c # cs = [] @ t @ q" by simp
      then show ?thesis by blast
    next
      case 2
      with Cons.IH obtain p q where "cs = p @ t @ q" by blast
      then have "c # cs = (c # p) @ t @ q" by simp
      then show ?thesis by blast
    qed
  next
    assume "\<exists>p q. c # cs = p @ t @ q"
    then obtain p q where pq: "c # cs = p @ t @ q" by blast
    show "js_includes (c # cs) t"
    proof (cases p)
      case Nil
      with pq have "starts_with (c # cs) t" by (auto simp: starts_with_iff)
      then show ?thesis by simp
    next
      case (Cons a p')
      with pq have "cs = p' @ t @ q" by simp
      with Cons.IH have "js_includes cs t" by blast
      then show ?thesis by simp
    qed
  qed
qed

lemma trim_Nil: "trim [] = []"
  by (simp add: trim_def)

lemma nonblank_iff: "s \<noteq> [] \<and> 0 < length (trim s) \<longleftrightarrow> trim s \<noteq> []"
  using trim_Nil by auto

lemma header_names_differ: "lit ''Content-Type'' \<noteq> lit ''Authorization''"
  by (simp add: lit_def)

lemma sent_apiGet:
  "sent (apiGet env fetch path token) =
     \<lparr> req_url = getBackendBaseUrl env @ path, req_method = GET,
       req_headers = (if truthy token
                      then [(lit ''Authorization'', lit ''Bearer '' @ ToString token)] else []),
       req_body = None \<rparr>"
  by (simp add: sent_def apiGet_def Let_def)

lemma sent_apiPost:
  "sent (apiPost env fetch path body token) =
     \<lparr> req_url = getBackendBaseUrl env @ path, req_method = POST,
       req_headers = (lit ''Content-Type'', lit ''application/json'')
                     # (if truthy token
                        then [(lit ''Authorization'', lit ''Bearer '' @ ToString token)] else []),
       req_body = Some (JSON_stringify (nullish_or body (JObj []))) \<rparr>"
  using header_names_differ by (simp add: sent_def apiPost_def Let_def)

lemma settled_apiGet:
  "settled (apiGet env fetch path token) =
     (case fetch (sent (apiGet env fetch path token)) of
        Inl e \<Rightarrow> Inl e
      | Inr resp \<Rightarrow> settle_response resp)"
  unfolding settled_def sent_def apiGet_def Let_def settle_response_def decode_body_def
    failure_message_def
  by (simp only: fst_conv snd_conv)

lemma settled_apiPost:
  "settled (apiPost env fetch path body token) =
     (case fetch (sent (apiPost env fetch path body token)) of
        Inl e \<Rightarrow> Inl e
      | Inr resp \<Rightarrow> settle_response resp)"
  unfolding settled_def sent_def apiPost_def Let_def settle_response_def decode_body_def
    failure_message_def
  by (simp only: fst_conv snd_conv)

section \<open>Resolving the base URL\<close>

text \<open>
  C1. When \<open>REACT_APP_BACKEND_URL\<close> is set and its trimmed form is not empty,
  \<open>getBackendBaseUrl\<close> returns the configured string itself, untrimmed. When the variable
  is not set, or its value trims to the empty string, it returns
  \<open>http://localhost:3001\<close>.
\<close>

theorem getBackendBaseUrl_contract:
  "(env (lit ''REACT_APP_BACKEND_URL'') = Some s \<and> trim s \<noteq> []
      \<longrightarrow> getBackendBaseUrl env = s) \<and>
   (env (lit ''REACT_APP_BACKEND_URL'') = None
      \<or> (env (lit ''REACT_APP_BACKEND_URL'') = Some s \<and> trim s = [])
      \<longrightarrow> getBackendBaseUrl env = lit ''http://localhost:3001'')"
proof (cases "env (lit ''REACT_APP_BACKEND_URL'')")
  case None
  then show ?thesis by (simp add: getBackendBaseUrl_def)
next
  case (Some v)
  have "getBackendBaseUrl env = (if trim v \<noteq> [] then v else lit ''http://localhost:3001'')"
    using Some nonblank_iff [of v] by (simp add: getBackendBaseUrl_def)
  with Some show ?thesis by auto
qed

theorem getBackendBaseUrl_contract_witness:
  "getBackendBaseUrl [lit ''REACT_APP_BACKEND_URL'' \<mapsto> lit '' http://example.com '']
     = lit '' http://example.com '' \<and>
   getBackendBaseUrl [lit ''REACT_APP_BACKEND_URL'' \<mapsto> [0x20, 0x09, 0x0A, 0xA0]]
     = lit ''http://localhost:3001'' \<and>
   getBackendBaseUrl Map.empty = lit ''http://localhost:3001''"
proof -
  have a: "trim (lit '' http://example.com '') \<noteq> []"
    by (simp add: trim_def lit_def is_white_space_def is_line_terminator_def)
  have b: "trim [0x20, 0x09, 0x0A, 0xA0] = []"
    by (simp add: trim_def is_white_space_def is_line_terminator_def)
  show ?thesis
    using getBackendBaseUrl_contract
            [of "[lit ''REACT_APP_BACKEND_URL'' \<mapsto> lit '' http://example.com '']"
                "lit '' http://example.com ''"]
          getBackendBaseUrl_contract
            [of "[lit ''REACT_APP_BACKEND_URL'' \<mapsto> [0x20, 0x09, 0x0A, 0xA0]]"
                "[0x20, 0x09, 0x0A, 0xA0]"]
          getBackendBaseUrl_contract [of Map.empty "[]"]
          a b
    by simp
qed

section \<open>Handling the response\<close>

text \<open>
  C2, as the specification words it, fails: not every failing response is rejected with
  an error made from a decoded detail. A response not flagged ok that announces JSON and
  carries an HTML page makes \<open>resp.json()\<close> reject, and the helpers reject with that
  error, a \<open>SyntaxError\<close>, whose message is neither the body nor a serialisation of it.
\<close>

theorem failing_response_message_counterexample:
  "\<not> resp_ok \<lparr> resp_ok = False, resp_status = 502,
               resp_content_type = Some (lit ''application/json''),
               resp_json = Inl (Exn (lit ''SyntaxError'') (lit ''Unexpected token'')),
               resp_text = Inr (lit ''<html>Bad Gateway</html>'') \<rparr> \<and>
   settled (apiGet Map.empty
      (answering \<lparr> resp_ok = False, resp_status = 502,
                   resp_content_type = Some (lit ''application/json''),
                   resp_json = Inl (Exn (lit ''SyntaxError'') (lit ''Unexpected token'')),
                   resp_text = Inr (lit ''<html>Bad Gateway</html>'') \<rparr>)
      (lit ''/x'') None)
     = Inl (Exn (lit ''SyntaxError'') (lit ''Unexpected token'')) \<and>
   settled (apiPost Map.empty
      (answering \<lparr> resp_ok = False, resp_status = 502,
                   resp_content_type = Some (lit ''application/json''),
                   resp_json = Inl (Exn (lit ''SyntaxError'') (lit ''Unexpected token'')),
                   resp_text = Inr (lit ''<html>Bad Gateway</html>'') \<rparr>)
      (lit ''/x'') None None)
     = Inl (Exn (lit ''SyntaxError'') (lit ''Unexpected token'')) \<and>
   Exn (lit ''SyntaxError'') (lit ''Unexpected token'') \<noteq> Error (lit ''<html>Bad Gateway</html>'')"
proof -
  have inc: "js_includes (lit ''application/json'') (lit ''application/json'')"
    by (simp add: lit_def)
  have ne: "lit ''application/json'' \<noteq> []"
    by (simp add: lit_def)
  have names: "lit ''SyntaxError'' \<noteq> lit ''Error''"
    by (simp add: lit_def)
  show ?thesis
    using inc ne names
    by (simp add: settled_apiGet settled_apiPost answering_def settle_response_def
          decode_body_def or_string_def Error_def)
qed

text \<open>
  C2, amended. When the transport delivers a response that is not flagged ok, \<open>apiGet\<close>
  and \<open>apiPost\<close> reject. If the body reader chosen by the content type decodes the body
  to \<open>detail\<close>, they reject with \<open>new Error(m)\<close>, where \<open>m\<close> is \<open>detail\<close> itself if that is
  a string and \<open>JSON.stringify(detail)\<close> otherwise. If the reader rejects, they reject with
  the reader's error.
\<close>

theorem failing_response_message:
  assumes "\<not> resp_ok resp"
    and "(fetch (sent (apiGet env fetch path token)) = Inr resp
            \<and> outcome = settled (apiGet env fetch path token))
         \<or> (fetch (sent (apiPost env fetch path body token)) = Inr resp
            \<and> outcome = settled (apiPost env fetch path body token))"
  shows "(decode_body resp = Inr detail \<longrightarrow>
            (\<forall>s. detail = JStr s \<longrightarrow> outcome = Inl (Error s)) \<and>
            ((\<forall>s. detail \<noteq> JStr s) \<longrightarrow> outcome = Inl (Error (JSON_stringify detail)))) \<and>
         (decode_body resp = Inl e \<longrightarrow> outcome = Inl e)"
proof -
  have out: "outcome = settle_response resp"
    using assms(2) by (auto simp: settled_apiGet settled_apiPost)
  have decoded: "decode_body resp = Inr detail \<longrightarrow>
            (\<forall>s. detail = JStr s \<longrightarrow> outcome = Inl (Error s)) \<and>
            ((\<forall>s. detail \<noteq> JStr s) \<longrightarrow> outcome = Inl (Error (JSON_stringify detail)))"
  proof
    assume d: "decode_body resp = Inr detail"
    have *: "outcome = Inl (Error (failure_message detail))"
      using out assms(1) d by (simp add: settle_response_def)
    show "(\<forall>s. detail = JStr s \<longrightarrow> outcome = Inl (Error s)) \<and>
          ((\<forall>s. detail \<noteq> JStr s) \<longrightarrow> outcome = Inl (Error (JSON_stringify detail)))"
      unfolding * by (cases detail) (simp_all add: failure_message_def)
  qed
  have undecoded: "decode_body resp = Inl e \<longrightarrow> outcome = Inl e"
    using out assms(1) by (simp add: settle_response_def)
  from decoded undecoded show ?thesis
    by (intro conjI)
qed

theorem failing_response_message_witness:
  "settled (apiGet Map.empty
      (answering \<lparr> resp_ok = False, resp_status = 500,
                   resp_content_type = Some (lit ''application/json''),
                   resp_json = Inr (JObj [(lit ''code'', JStr (lit ''E1''))]),
                   resp_text = Inr ([0x7B, 0x22] @ lit ''code'' @ [0x22, 0x3A, 0x22] @ lit ''E1''
                                    @ [0x22, 0x7D]) \<rparr>)
      (lit ''/x'') None)
     = Inl (Error ([0x7B, 0x22] @ lit ''code'' @ [0x22, 0x3A, 0x22] @ lit ''E1'' @ [0x22, 0x7D])) \<and>
   settled (apiPost Map.empty
      (answering \<lparr> resp_ok = False, resp_status = 503,
                   resp_content_type = Some (lit ''text/plain''),
                   resp_json = Inl (Exn (lit ''SyntaxError'') (lit ''Unexpected token'')),
                   resp_text = Inr (lit ''unavailable'') \<rparr>)
      (lit ''/x'') (Some (JObj [])) None)
     = Inl (Error (lit ''unavailable'')) \<and>
   settled (apiGet Map.empty
      (answering \<lparr> resp_ok = False, resp_status = 500,
                   resp_content_type = Some (lit ''application/json''),
                   resp_json = Inl (Exn (lit ''SyntaxError'') (lit ''Unexpected end of JSON input'')),
                   resp_text = Inr [] \<rparr>)
      (lit ''/x'') None)
     = Inl (Exn (lit ''SyntaxError'') (lit ''Unexpected end of JSON input''))"
proof -
  let ?r1 = "\<lparr> resp_ok = False, resp_status = 500,
                resp_content_type = Some (lit ''application/json''),
                resp_json = Inr (JObj [(lit ''code'', JStr (lit ''E1''))]),
                resp_text = Inr ([0x7B, 0x22] @ lit ''code'' @ [0x22, 0x3A, 0x22] @ lit ''E1''
                                 @ [0x22, 0x7D]) \<rparr>"
  let ?r2 = "\<lparr> resp_ok = False, resp_status = 503,
                resp_content_type = Some (lit ''text/plain''),
                resp_json = Inl (Exn (lit ''SyntaxError'') (lit ''Unexpected token'')),
                resp_text = Inr (lit ''unavailable'') \<rparr>"
  let ?r3 = "\<lparr> resp_ok = False, resp_status = 500,
                resp_content_type = Some (lit ''application/json''),
                resp_json = Inl (Exn (lit ''SyntaxError'') (lit ''Unexpected end of JSON input'')),
                resp_text = Inr [] \<rparr>"
  have d1: "decode_body ?r1 = Inr (JObj [(lit ''code'', JStr (lit ''E1''))])"
    by (simp add: decode_body_def or_string_def lit_def)
  have d2: "decode_body ?r2 = Inr (JStr (lit ''unavailable''))"
    by (simp add: decode_body_def or_string_def lit_def)
  have d3: "decode_body ?r3 = Inl (Exn (lit ''SyntaxError'') (lit ''Unexpected end of JSON input''))"
    by (simp add: decode_body_def or_string_def lit_def)
  have s1: "JSON_stringify (JObj [(lit ''code'', JStr (lit ''E1''))])
              = [0x7B, 0x22] @ lit ''code'' @ [0x22, 0x3A, 0x22] @ lit ''E1'' @ [0x22, 0x7D]"
    by (simp add: lit_def quote_json_string_def escape_unit_def is_high_surrogate_def
          is_low_surrogate_def)
  have w1: "settled (apiGet Map.empty (answering ?r1) (lit ''/x'') None)
              = Inl (Error (JSON_stringify (JObj [(lit ''code'', JStr (lit ''E1''))])))"
    using failing_response_message
            [where resp = ?r1 and detail = "JObj [(lit ''code'', JStr (lit ''E1''))]"
               and fetch = "answering ?r1" and env = Map.empty and path = "lit ''/x''"
               and token = None
               and outcome = "settled (apiGet Map.empty (answering ?r1) (lit ''/x'') None)"]
          d1
    by (simp add: answering_def del: JSON_stringify.simps)
  have w2: "settled (apiPost Map.empty (answering ?r2) (lit ''/x'') (Some (JObj [])) None)
              = Inl (Error (lit ''unavailable''))"
    using failing_response_message
            [where resp = ?r2 and detail = "JStr (lit ''unavailable'')"
               and fetch = "answering ?r2" and env = Map.empty and path = "lit ''/x''"
               and token = None and body = "Some (JObj [])"
               and outcome = "settled (apiPost Map.empty (answering ?r2) (lit ''/x'')
                                 (Some (JObj [])) None)"]
          d2
    by (simp add: answering_def)
  have w3: "settled (apiGet Map.empty (answering ?r3) (lit ''/x'') None)
              = Inl (Exn (lit ''SyntaxError'') (lit ''Unexpected end of JSON input''))"
    using failing_response_message
            [where resp = ?r3
               and e = "Exn (lit ''SyntaxError'') (lit ''Unexpected end of JSON input'')"
               and fetch = "answering ?r3" and env = Map.empty and path = "lit ''/x''"
               and token = None
               and outcome = "settled (apiGet Map.empty (answering ?r3) (lit ''/x'') None)"]
          d3
    by (simp add: answering_def)
  show ?thesis
    by (simp only: w1 w2 w3 s1 simp_thms)
qed

text \<open>
  An instance worth recording: a failing response whose JSON body is the object
  \<open>{"detail":"bad input"}\<close> decodes to an object, not to a string, so the message is the
  serialised object; no member of it is extracted.
\<close>

lemma failing_detail_object_message:
  "settled (apiPost Map.empty
      (answering \<lparr> resp_ok = False, resp_status = 400,
                   resp_content_type = Some (lit ''application/json''),
                   resp_json = Inr (JObj [(lit ''detail'', JStr (lit ''bad input''))]),
                   resp_text = Inr ([0x7B, 0x22] @ lit ''detail'' @ [0x22, 0x3A, 0x22]
                                    @ lit ''bad input'' @ [0x22, 0x7D]) \<rparr>)
      (lit ''/x'') (Some (JObj [])) None)
     = Inl (Error ([0x7B, 0x22] @ lit ''detail'' @ [0x22, 0x3A, 0x22] @ lit ''bad input''
                   @ [0x22, 0x7D]))"
proof -
  have inc: "js_includes (lit ''application/json'') (lit ''application/json'')"
    by (simp add: lit_def)
  have ne: "lit ''application/json'' \<noteq> []"
    by (simp add: lit_def)
  have s: "JSON_stringify (JObj [(lit ''detail'', JStr (lit ''bad input''))])
             = [0x7B, 0x22] @ lit ''detail'' @ [0x22, 0x3A, 0x22] @ lit ''bad input'' @ [0x22, 0x7D]"
    by (simp add: lit_def quote_json_string_def escape_unit_def is_high_surrogate_def
          is_low_surrogate_def)
  have "settled (apiPost Map.empty
      (answering \<lparr> resp_ok = False, resp_status = 400,
                   resp_content_type = Some (lit ''application/json''),
                   resp_json = Inr (JObj [(lit ''detail'', JStr (lit ''bad input''))]),
                   resp_text = Inr ([0x7B, 0x22] @ lit ''detail'' @ [0x22, 0x3A, 0x22]
                                    @ lit ''bad input'' @ [0x22, 0x7D]) \<rparr>)
      (lit ''/x'') (Some (JObj [])) None)
     = Inl (Error (JSON_stringify (JObj [(lit ''detail'', JStr (lit ''bad input''))])))"
    using inc ne
    by (simp add: settled_apiPost answering_def settle_response_def decode_body_def
          or_string_def failure_message_def del: JSON_stringify.simps)
  then show ?thesis
    by (simp only: s)
qed

text \<open>
  C3, as the specification words it, fails: the match is not case-insensitive. A response
  flagged ok with the header \<open>Content-Type: Application/JSON\<close> matches when case is
  ignored, so the specification's rule decodes its body as JSON, but \<open>apiGet\<close> and
  \<open>apiPost\<close> resolve to the raw text.
\<close>

theorem content_type_match_counterexample:
  "spec_includes_ignoring_case (lit ''Application/JSON'') (lit ''application/json'') \<and>
   spec_decode_body
      \<lparr> resp_ok = True, resp_status = 200,
        resp_content_type = Some (lit ''Application/JSON''),
        resp_json = Inr (JObj [(lit ''a'', JNum (Finite (lit ''1'')))]),
        resp_text = Inr [0x7B, 0x22, 0x61, 0x22, 0x3A, 0x31, 0x7D] \<rparr>
     = Inr (JObj [(lit ''a'', JNum (Finite (lit ''1'')))]) \<and>
   settled (apiGet Map.empty
      (answering \<lparr> resp_ok = True, resp_status = 200,
                   resp_content_type = Some (lit ''Application/JSON''),
                   resp_json = Inr (JObj [(lit ''a'', JNum (Finite (lit ''1'')))]),
                   resp_text = Inr [0x7B, 0x22, 0x61, 0x22, 0x3A, 0x31, 0x7D] \<rparr>)
      (lit ''/x'') None)
     = Inr (JStr [0x7B, 0x22, 0x61, 0x22, 0x3A, 0x31, 0x7D]) \<and>
   settled (apiPost Map.empty
      (answering \<lparr> resp_ok = True, resp_status = 200,
                   resp_content_type = Some (lit ''Application/JSON''),
                   resp_json = Inr (JObj [(lit ''a'', JNum (Finite (lit ''1'')))]),
                   resp_text = Inr [0x7B, 0x22, 0x61, 0x22, 0x3A, 0x31, 0x7D] \<rparr>)
      (lit ''/x'') None None)
     = Inr (JStr [0x7B, 0x22, 0x61, 0x22, 0x3A, 0x31, 0x7D])"
proof -
  have ci: "spec_includes_ignoring_case (lit ''Application/JSON'') (lit ''application/json'')"
    by (simp add: spec_includes_ignoring_case_def ascii_lower_def lit_def)
  have cs: "\<not> js_includes (lit ''Application/JSON'') (lit ''application/json'')"
    by (simp add: lit_def)
  have ne: "lit ''Application/JSON'' \<noteq> []"
    by (simp add: lit_def)
  show ?thesis
    using ci cs ne
    by (simp add: settled_apiGet settled_apiPost answering_def settle_response_def
          decode_body_def spec_decode_body_def or_string_def)
qed

text \<open>
  C3, amended. Both helpers settle as \<open>settle_response\<close> says, which decodes the body
  with \<open>decode_body\<close>; and \<open>decode_body\<close> reads the body as JSON exactly when
  \<open>application/json\<close> occurs in the content-type header as a run of equal code units
  (so in lower case), and as text otherwise. An absent header counts as the empty string,
  and then the body is read as text.
\<close>

theorem content_type_rule:
  assumes "contentType = (case resp_content_type resp of None \<Rightarrow> [] | Some h \<Rightarrow> h)"
  shows "(fetch (sent (apiGet env fetch path token)) = Inr resp
            \<longrightarrow> settled (apiGet env fetch path token) = settle_response resp) \<and>
         (fetch' (sent (apiPost env fetch' path body token)) = Inr resp
            \<longrightarrow> settled (apiPost env fetch' path body token) = settle_response resp) \<and>
         decode_body resp =
           (if \<exists>p q. contentType = p @ lit ''application/json'' @ q
            then resp_json resp else map_sum id JStr (resp_text resp)) \<and>
         (resp_content_type resp = None
            \<longrightarrow> contentType = [] \<and> decode_body resp = map_sum id JStr (resp_text resp))"
proof -
  have ct: "or_string (resp_content_type resp) [] = contentType"
    using assms by (simp add: or_string_def split: option.splits)
  have ne: "lit ''application/json'' \<noteq> []"
    by (simp add: lit_def)
  have dec: "decode_body resp =
               (if \<exists>p q. contentType = p @ lit ''application/json'' @ q
                then resp_json resp else map_sum id JStr (resp_text resp))"
    unfolding decode_body_def ct js_includes_iff ..
  have absent: "resp_content_type resp = None
                  \<longrightarrow> contentType = [] \<and> decode_body resp = map_sum id JStr (resp_text resp)"
    using assms ne by (simp add: dec)
  have get: "fetch (sent (apiGet env fetch path token)) = Inr resp
               \<longrightarrow> settled (apiGet env fetch path token) = settle_response resp"
    by (simp add: settled_apiGet)
  have post: "fetch' (sent (apiPost env fetch' path body token)) = Inr resp
                \<longrightarrow> settled (apiPost env fetch' path body token) = settle_response resp"
    by (simp add: settled_apiPost)
  from get post dec absent show ?thesis
    by (intro conjI)
qed

theorem content_type_rule_witness:
  "settled (apiGet Map.empty
      (answering \<lparr> resp_ok = True, resp_status = 200,
                   resp_content_type = None,
                   resp_json = Inr (JNum (Finite (lit ''1''))),
                   resp_text = Inr (lit ''1'') \<rparr>)
      (lit ''/x'') None)
     = Inr (JStr (lit ''1'')) \<and>
   settled (apiPost Map.empty
      (answering \<lparr> resp_ok = True, resp_status = 200,
                   resp_content_type = Some (lit ''application/json; charset=utf-8''),
                   resp_json = Inr (JNum (Finite (lit ''1''))),
                   resp_text = Inr (lit ''1'') \<rparr>)
      (lit ''/x'') None None)
     = Inr (JNum (Finite (lit ''1'')))"
proof -
  let ?r1 = "\<lparr> resp_ok = True, resp_status = 200,
                resp_content_type = None,
                resp_json = Inr (JNum (Finite (lit ''1''))),
                resp_text = Inr (lit ''1'') \<rparr>"
  let ?r2 = "\<lparr> resp_ok = True, resp_status = 200,
                resp_content_type = Some (lit ''application/json; charset=utf-8''),
                resp_json = Inr (JNum (Finite (lit ''1''))),
                resp_text = Inr (lit ''1'') \<rparr>"
  have occ: "\<exists>p q. lit ''application/json; charset=utf-8'' = p @ lit ''application/json'' @ q"
    unfolding js_includes_iff [symmetric] by (simp add: lit_def)
  have ne: "lit ''application/json'' \<noteq> []"
    by (simp add: lit_def)
  have w1: "settled (apiGet Map.empty (answering ?r1) (lit ''/x'') None) = settle_response ?r1
            \<and> decode_body ?r1 = map_sum id JStr (resp_text ?r1)"
    using content_type_rule [of "[]" ?r1 "answering ?r1" Map.empty "lit ''/x''" None] ne
    by (simp add: answering_def)
  have w2: "settled (apiPost Map.empty (answering ?r2) (lit ''/x'') None None) = settle_response ?r2
            \<and> decode_body ?r2 = resp_json ?r2"
    using content_type_rule [of "lit ''application/json; charset=utf-8''" ?r2 _ Map.empty
                                "lit ''/x''" None "answering ?r2" None] occ
    by (simp add: answering_def)
  show ?thesis
    using w1 w2 by (simp add: settle_response_def)
qed

text \<open>
  C4, as the specification words it, fails: rejection is not equivalent to the response
  not being flagged ok. A response flagged ok that announces JSON and has an empty body
  makes \<open>resp.json()\<close> reject, and with it the helper.
\<close>

theorem reject_iff_not_ok_counterexample:
  "resp_ok \<lparr> resp_ok = True, resp_status = 200,
             resp_content_type = Some (lit ''application/json''),
             resp_json = Inl (Exn (lit ''SyntaxError'') (lit ''Unexpected end of JSON input'')),
             resp_text = Inr [] \<rparr> \<and>
   settled (apiGet Map.empty
      (answering \<lparr> resp_ok = True, resp_status = 200,
                   resp_content_type = Some (lit ''application/json''),
                   resp_json = Inl (Exn (lit ''SyntaxError'') (lit ''Unexpected end of JSON input'')),
                   resp_text = Inr [] \<rparr>)
      (lit ''/x'') None)
     = Inl (Exn (lit ''SyntaxError'') (lit ''Unexpected end of JSON input'')) \<and>
   settled (apiPost Map.empty
      (answering \<lparr> resp_ok = True, resp_status = 200,
                   resp_content_type = Some (lit ''application/json''),
                   resp_json = Inl (Exn (lit ''SyntaxError'') (lit ''Unexpected end of JSON input'')),
                   resp_text = Inr [] \<rparr>)
      (lit ''/x'') None None)
     = Inl (Exn (lit ''SyntaxError'') (lit ''Unexpected end of JSON input''))"
proof -
  have inc: "js_includes (lit ''application/json'') (lit ''application/json'')"
    by (simp add: js_includes_iff) (metis append_Nil append_Nil2)
  have ne: "lit ''application/json'' \<noteq> []"
    by (simp add: lit_def)
  show ?thesis
    using inc ne
    by (simp add: settled_apiGet settled_apiPost answering_def settle_response_def
          decode_body_def or_string_def)
qed

text \<open>
  C4, amended. Given the response that the transport delivers, \<open>apiGet\<close> and \<open>apiPost\<close>
  reject if and only if the response is not flagged ok or the body reader chosen by the
  content type itself rejects. The flag is taken as the transport reports it: the status
  code is never read, and neither is the decoded content, to tell success from failure.
\<close>

theorem reject_iff_not_ok_or_undecodable:
  assumes "(fetch (sent (apiGet env fetch path token)) = Inr resp
              \<and> outcome = settled (apiGet env fetch path token))
           \<or> (fetch (sent (apiPost env fetch path body token)) = Inr resp
              \<and> outcome = settled (apiPost env fetch path body token))"
  shows "(isl outcome \<longleftrightarrow> \<not> resp_ok resp \<or> isl (decode_body resp)) \<and>
         settled (apiGet env (answering (resp\<lparr>resp_status := n\<rparr>)) path token)
           = settled (apiGet env (answering resp) path token) \<and>
         settled (apiPost env (answering (resp\<lparr>resp_status := n\<rparr>)) path body token)
           = settled (apiPost env (answering resp) path body token)"
proof -
  have "outcome = settle_response resp"
    using assms by (auto simp: settled_apiGet settled_apiPost)
  then have rej: "isl outcome \<longleftrightarrow> \<not> resp_ok resp \<or> isl (decode_body resp)"
    by (simp add: settle_response_def split: sum.splits)
  have "settle_response (resp\<lparr>resp_status := n\<rparr>) = settle_response resp"
    by (simp add: settle_response_def decode_body_def)
  then have "settled (apiGet env (answering (resp\<lparr>resp_status := n\<rparr>)) path token)
               = settled (apiGet env (answering resp) path token)"
        and "settled (apiPost env (answering (resp\<lparr>resp_status := n\<rparr>)) path body token)
               = settled (apiPost env (answering resp) path body token)"
    by (simp_all add: settled_apiGet settled_apiPost answering_def)
  with rej show ?thesis
    by (intro conjI)
qed

theorem reject_iff_not_ok_or_undecodable_witness:
  "isl (settled (apiGet Map.empty
      (answering \<lparr> resp_ok = False, resp_status = 404,
                   resp_content_type = Some (lit ''text/plain''),
                   resp_json = Inl (Exn (lit ''SyntaxError'') (lit ''Unexpected token'')),
                   resp_text = Inr (lit ''Not Found'') \<rparr>)
      (lit ''/x'') None)) \<and>
   \<not> isl (settled (apiPost Map.empty
      (answering \<lparr> resp_ok = True, resp_status = 200,
                   resp_content_type = Some (lit ''text/plain''),
                   resp_json = Inl (Exn (lit ''SyntaxError'') (lit ''Unexpected token'')),
                   resp_text = Inr (lit ''done'') \<rparr>)
      (lit ''/x'') None None))"
proof -
  let ?r1 = "\<lparr> resp_ok = False, resp_status = 404,
                resp_content_type = Some (lit ''text/plain''),
                resp_json = Inl (Exn (lit ''SyntaxError'') (lit ''Unexpected token'')),
                resp_text = Inr (lit ''Not Found'') \<rparr>"
  let ?r2 = "\<lparr> resp_ok = True, resp_status = 200,
                resp_content_type = Some (lit ''text/plain''),
                resp_json = Inl (Exn (lit ''SyntaxError'') (lit ''Unexpected token'')),
                resp_text = Inr (lit ''done'') \<rparr>"
  have d2: "decode_body ?r2 = Inr (JStr (lit ''done''))"
    by (simp add: decode_body_def or_string_def lit_def)
  have w1: "isl (settled (apiGet Map.empty (answering ?r1) (lit ''/x'') None))"
    using reject_iff_not_ok_or_undecodable
            [of "answering ?r1" Map.empty "lit ''/x''" None ?r1
                "settled (apiGet Map.empty (answering ?r1) (lit ''/x'') None)"]
    by (simp add: answering_def)
  have w2: "\<not> isl (settled (apiPost Map.empty (answering ?r2) (lit ''/x'') None None))"
    using reject_iff_not_ok_or_undecodable
            [of "answering ?r2" Map.empty "lit ''/x''" None ?r2
                "settled (apiPost Map.empty (answering ?r2) (lit ''/x'') None None)" None]
          d2
    by (simp add: answering_def)
  from w1 w2 show ?thesis
    by (intro conjI)
qed

text \<open>
  C5, as the specification words it, fails: not every response flagged ok makes the
  helpers resolve. A response flagged ok that announces JSON and has no content makes
  \<open>resp.json()\<close> reject, and the helpers reject with it.
\<close>

theorem successful_response_value_counterexample:
  "resp_ok \<lparr> resp_ok = True, resp_status = 204,
             resp_content_type = Some (lit ''application/json; charset=utf-8''),
             resp_json = Inl (Exn (lit ''SyntaxError'') (lit ''Unexpected end of JSON input'')),
             resp_text = Inr [] \<rparr> \<and>
   js_includes (lit ''application/json; charset=utf-8'') (lit ''application/json'') \<and>
   settled (apiGet Map.empty
      (answering \<lparr> resp_ok = True, resp_status = 204,
                   resp_content_type = Some (lit ''application/json; charset=utf-8''),
                   resp_json = Inl (Exn (lit ''SyntaxError'') (lit ''Unexpected end of JSON input'')),
                   resp_text = Inr [] \<rparr>)
      (lit ''/x'') None)
     = Inl (Exn (lit ''SyntaxError'') (lit ''Unexpected end of JSON input'')) \<and>
   settled (apiPost Map.empty
      (answering \<lparr> resp_ok = True, resp_status = 204,
                   resp_content_type = Some (lit ''application/json; charset=utf-8''),
                   resp_json = Inl (Exn (lit ''SyntaxError'') (lit ''Unexpected end of JSON input'')),
                   resp_text = Inr [] \<rparr>)
      (lit ''/x'') (Some (JObj [])) None)
     = Inl (Exn (lit ''SyntaxError'') (lit ''Unexpected end of JSON input''))"
proof -
  have inc: "js_includes (lit ''application/json; charset=utf-8'') (lit ''application/json'')"
    by (simp add: lit_def)
  have ne: "lit ''application/json; charset=utf-8'' \<noteq> []"
    by (simp add: lit_def)
  show ?thesis
    using inc ne
    by (simp add: settled_apiGet settled_apiPost answering_def settle_response_def
          decode_body_def or_string_def)
qed

text \<open>
  C5, amended. When the transport delivers a response flagged ok, \<open>apiGet\<close> and \<open>apiPost\<close>
  settle as the body reader chosen by the content type does: \<open>resp.json()\<close> if the content
  type contains \<open>application/json\<close>, and \<open>resp.text()\<close> otherwise. So they resolve to the
  parsed JSON value, or to the raw text as a string, whenever that reader yields one, and
  reject with the reader's error when it rejects.
\<close>

theorem successful_response_value:
  assumes "resp_ok resp"
    and "(fetch (sent (apiGet env fetch path token)) = Inr resp
            \<and> outcome = settled (apiGet env fetch path token))
         \<or> (fetch (sent (apiPost env fetch path body token)) = Inr resp
            \<and> outcome = settled (apiPost env fetch path body token))"
  shows "(js_includes (or_string (resp_content_type resp) []) (lit ''application/json'')
            \<longrightarrow> outcome = resp_json resp) \<and>
         (\<not> js_includes (or_string (resp_content_type resp) []) (lit ''application/json'')
            \<longrightarrow> outcome = map_sum id JStr (resp_text resp)) \<and>
         (js_includes (or_string (resp_content_type resp) []) (lit ''application/json'')
            \<and> resp_json resp = Inr v \<longrightarrow> outcome = Inr v) \<and>
         (\<not> js_includes (or_string (resp_content_type resp) []) (lit ''application/json'')
            \<and> resp_text resp = Inr s \<longrightarrow> outcome = Inr (JStr s)) \<and>
         (js_includes (or_string (resp_content_type resp) []) (lit ''application/json'')
            \<and> resp_json resp = Inl e \<longrightarrow> outcome = Inl e) \<and>
         (\<not> js_includes (or_string (resp_content_type resp) []) (lit ''application/json'')
            \<and> resp_text resp = Inl e \<longrightarrow> outcome = Inl e)"
proof -
  have "outcome = settle_response resp"
    using assms(2) by (auto simp: settled_apiGet settled_apiPost)
  then have "outcome = decode_body resp"
    using assms(1) by (simp add: settle_response_def)
  then show ?thesis
    by (simp add: decode_body_def)
qed

theorem successful_response_value_witness:
  "settled (apiGet Map.empty
      (answering \<lparr> resp_ok = True, resp_status = 200,
                   resp_content_type = Some (lit ''application/json''),
                   resp_json = Inr (JObj [(lit ''a'', JNum (Finite (lit ''1'')))]),
                   resp_text = Inr [0x7B, 0x22, 0x61, 0x22, 0x3A, 0x31, 0x7D] \<rparr>)
      (lit ''/x'') None)
     = Inr (JObj [(lit ''a'', JNum (Finite (lit ''1'')))]) \<and>
   settled (apiGet Map.empty
      (answering \<lparr> resp_ok = True, resp_status = 200,
                   resp_content_type = Some (lit ''text/plain''),
                   resp_json = Inl (Exn (lit ''SyntaxError'') (lit ''Unexpected token'')),
                   resp_text = Inr (lit ''hello'') \<rparr>)
      (lit ''/x'') None)
     = Inr (JStr (lit ''hello'')) \<and>
   settled (apiPost Map.empty
      (answering \<lparr> resp_ok = True, resp_status = 200,
                   resp_content_type = Some (lit ''application/json''),
                   resp_json = Inl (Exn (lit ''SyntaxError'') (lit ''Unexpected token'')),
                   resp_text = Inr (lit ''hello'') \<rparr>)
      (lit ''/x'') None None)
     = Inl (Exn (lit ''SyntaxError'') (lit ''Unexpected token''))"
proof -
  let ?r1 = "\<lparr> resp_ok = True, resp_status = 200,
                resp_content_type = Some (lit ''application/json''),
                resp_json = Inr (JObj [(lit ''a'', JNum (Finite (lit ''1'')))]),
                resp_text = Inr [0x7B, 0x22, 0x61, 0x22, 0x3A, 0x31, 0x7D] \<rparr>"
  let ?r2 = "\<lparr> resp_ok = True, resp_status = 200,
                resp_content_type = Some (lit ''text/plain''),
                resp_json = Inl (Exn (lit ''SyntaxError'') (lit ''Unexpected token'')),
                resp_text = Inr (lit ''hello'') \<rparr>"
  let ?r3 = "\<lparr> resp_ok = True, resp_status = 200,
                resp_content_type = Some (lit ''application/json''),
                resp_json = Inl (Exn (lit ''SyntaxError'') (lit ''Unexpected token'')),
                resp_text = Inr (lit ''hello'') \<rparr>"
  have c1: "js_includes (or_string (resp_content_type ?r1) []) (lit ''application/json'')"
    by (simp add: or_string_def lit_def)
  have c2: "\<not> js_includes (or_string (resp_content_type ?r2) []) (lit ''application/json'')"
    by (simp add: or_string_def lit_def)
  have c3: "js_includes (or_string (resp_content_type ?r3) []) (lit ''application/json'')"
    by (simp add: or_string_def lit_def)
  have w1: "settled (apiGet Map.empty (answering ?r1) (lit ''/x'') None)
              = Inr (JObj [(lit ''a'', JNum (Finite (lit ''1'')))])"
    using successful_response_value
            [where resp = ?r1 and fetch = "answering ?r1" and env = Map.empty
               and path = "lit ''/x''" and token = None
               and outcome = "settled (apiGet Map.empty (answering ?r1) (lit ''/x'') None)"
               and v = "JObj [(lit ''a'', JNum (Finite (lit ''1'')))]"]
          c1
    by (simp add: answering_def)
  have w2: "settled (apiGet Map.empty (answering ?r2) (lit ''/x'') None)
              = Inr (JStr (lit ''hello''))"
    using successful_response_value
            [where resp = ?r2 and fetch = "answering ?r2" and env = Map.empty
               and path = "lit ''/x''" and token = None
               and outcome = "settled (apiGet Map.empty (answering ?r2) (lit ''/x'') None)"
               and s = "lit ''hello''"]
          c2
    by (simp add: answering_def)
  have w3: "settled (apiPost Map.empty (answering ?r3) (lit ''/x'') None None)
              = Inl (Exn (lit ''SyntaxError'') (lit ''Unexpected token''))"
    using successful_response_value
            [where resp = ?r3 and fetch = "answering ?r3" and env = Map.empty
               and path = "lit ''/x''" and token = None and body = None
               and outcome = "settled (apiPost Map.empty (answering ?r3) (lit ''/x'') None None)"
               and e = "Exn (lit ''SyntaxError'') (lit ''Unexpected token'')"]
          c3
    by (simp add: answering_def)
  from w1 w2 w3 show ?thesis
    by (intro conjI)
qed

section \<open>Building the request\<close>

text \<open>
  C6. The request that \<open>apiPost\<close> hands to the transport always carries the header
  \<open>Content-Type: application/json\<close>, and its payload is \<open>JSON.stringify\<close> of \<open>body\<close>,
  with the empty object in place of an absent or \<open>null\<close> body. In particular
  \<open>apiPost("/x", undefined, "tok123")\<close> sends \<open>Authorization: Bearer tok123\<close> and the
  payload \<open>{}\<close>.
\<close>

theorem apiPost_request:
  "map_of (req_headers (sent (apiPost env fetch path body token))) (lit ''Content-Type'')
     = Some (lit ''application/json'') \<and>
   req_method (sent (apiPost env fetch path body token)) = POST \<and>
   req_body (sent (apiPost env fetch path body token))
     = Some (JSON_stringify (case body of None \<Rightarrow> JObj [] | Some JNull \<Rightarrow> JObj [] | Some v \<Rightarrow> v)) \<and>
   (body = None \<or> body = Some JNull
      \<longrightarrow> req_body (sent (apiPost env fetch path body token)) = Some (lit ''{}'')) \<and>
   req_headers (sent (apiPost env fetch (lit ''/x'') None (Some (lit ''tok123''))))
     = [(lit ''Content-Type'', lit ''application/json''),
        (lit ''Authorization'', lit ''Bearer tok123'')] \<and>
   req_body (sent (apiPost env fetch (lit ''/x'') None (Some (lit ''tok123'')))) = Some (lit ''{}'')"
proof -
  have empty_object: "JSON_stringify (JObj []) = lit ''{}''"
    by (simp add: lit_def)
  have payload: "req_body (sent (apiPost env fetch path body token))
                   = Some (JSON_stringify (case body of None \<Rightarrow> JObj []
                                            | Some JNull \<Rightarrow> JObj [] | Some v \<Rightarrow> v))"
    by (simp add: sent_apiPost nullish_or_def)
  have absent: "body = None \<or> body = Some JNull
                  \<longrightarrow> req_body (sent (apiPost env fetch path body token)) = Some (lit ''{}'')"
    using empty_object by (auto simp: payload)
  have tok: "truthy (Some (lit ''tok123''))"
    by (simp add: truthy_def lit_def)
  have bearer: "lit ''Bearer '' @ lit ''tok123'' = lit ''Bearer tok123''"
    by (simp add: lit_def)
  have example_headers:
    "req_headers (sent (apiPost env fetch (lit ''/x'') None (Some (lit ''tok123''))))
       = [(lit ''Content-Type'', lit ''application/json''),
          (lit ''Authorization'', lit ''Bearer tok123'')]"
    using tok bearer by (simp add: sent_apiPost)
  have example_body:
    "req_body (sent (apiPost env fetch (lit ''/x'') None (Some (lit ''tok123'')))) = Some (lit ''{}'')"
    using empty_object by (simp add: sent_apiPost nullish_or_def)
  have header: "map_of (req_headers (sent (apiPost env fetch path body token))) (lit ''Content-Type'')
                  = Some (lit ''application/json'')"
    by (simp add: sent_apiPost)
  have meth: "req_method (sent (apiPost env fetch path body token)) = POST"
    by (simp add: sent_apiPost)
  from header meth payload absent example_headers example_body show ?thesis
    by (intro conjI)
qed

theorem apiPost_request_witness:
  "req_body (sent (apiPost Map.empty unreachable (lit ''/x'') (Some JNull) None))
     = Some (lit ''{}'') \<and>
   req_body (sent (apiPost Map.empty unreachable (lit ''/q'')
       (Some (JObj [(lit ''q'', JStr (lit ''hi''))])) None))
     = Some ([0x7B, 0x22, 0x71, 0x22, 0x3A, 0x22] @ lit ''hi'' @ [0x22, 0x7D])"
proof -
  have s: "JSON_stringify (JObj [(lit ''q'', JStr (lit ''hi''))])
             = [0x7B, 0x22, 0x71, 0x22, 0x3A, 0x22] @ lit ''hi'' @ [0x22, 0x7D]"
    by (simp add: lit_def quote_json_string_def escape_unit_def is_high_surrogate_def
          is_low_surrogate_def)
  have w1: "req_body (sent (apiPost Map.empty unreachable (lit ''/x'') (Some JNull) None))
              = Some (lit ''{}'')"
    using apiPost_request [of Map.empty unreachable "lit ''/x''" "Some JNull" None]
    by blast
  have w2: "req_body (sent (apiPost Map.empty unreachable (lit ''/q'')
                (Some (JObj [(lit ''q'', JStr (lit ''hi''))])) None))
              = Some (JSON_stringify (JObj [(lit ''q'', JStr (lit ''hi''))]))"
    using apiPost_request [of Map.empty unreachable "lit ''/q''"
                              "Some (JObj [(lit ''q'', JStr (lit ''hi''))])" None]
    by simp
  show ?thesis
    by (simp only: w1 w2 s simp_thms)
qed

text \<open>
  C7. The URL of the request is the resolved base URL followed by \<open>path\<close> as given, and
  the request has an \<open>Authorization\<close> header, with the value \<open>Bearer\<close>, a space and the
  token, exactly when the token is a string that is not empty.
\<close>

theorem request_url_and_authorization:
  "req_url (sent (apiGet env fetch path token)) = getBackendBaseUrl env @ path \<and>
   req_url (sent (apiPost env fetch path body token)) = getBackendBaseUrl env @ path \<and>
   (token = Some t \<and> t \<noteq> [] \<longrightarrow>
      map_of (req_headers (sent (apiGet env fetch path token))) (lit ''Authorization'')
        = Some (lit ''Bearer '' @ t) \<and>
      map_of (req_headers (sent (apiPost env fetch path body token))) (lit ''Authorization'')
        = Some (lit ''Bearer '' @ t)) \<and>
   (token = None \<or> token = Some [] \<longrightarrow>
      map_of (req_headers (sent (apiGet env fetch path token))) (lit ''Authorization'') = None \<and>
      map_of (req_headers (sent (apiPost env fetch path body token))) (lit ''Authorization'') = None)"
  using header_names_differ
  by (auto simp: sent_apiGet sent_apiPost truthy_def)

theorem request_url_and_authorization_witness:
  "req_url (sent (apiGet [lit ''REACT_APP_BACKEND_URL'' \<mapsto> lit ''http://api.test/'']
       unreachable (lit ''//a/../b?c#d'') (Some (lit ''tok123''))))
     = lit ''http://api.test/'' @ lit ''//a/../b?c#d'' \<and>
   map_of (req_headers (sent (apiGet [lit ''REACT_APP_BACKEND_URL'' \<mapsto> lit ''http://api.test/'']
       unreachable (lit ''//a/../b?c#d'') (Some (lit ''tok123'')))))
     (lit ''Authorization'') = Some (lit ''Bearer '' @ lit ''tok123'') \<and>
   map_of (req_headers (sent (apiPost Map.empty unreachable (lit ''/x'') None (Some []))))
     (lit ''Authorization'') = None"
proof -
  have u: "getBackendBaseUrl [lit ''REACT_APP_BACKEND_URL'' \<mapsto> lit ''http://api.test/'']
             = lit ''http://api.test/''"
    by (simp add: getBackendBaseUrl_def trim_def lit_def is_white_space_def is_line_terminator_def)
  have t: "lit ''tok123'' \<noteq> []"
    by (simp add: lit_def)
  show ?thesis
    using request_url_and_authorization
            [of "[lit ''REACT_APP_BACKEND_URL'' \<mapsto> lit ''http://api.test/'']"
                unreachable "lit ''//a/../b?c#d''" "Some (lit ''tok123'')" _
                "lit ''tok123''"]
          request_url_and_authorization
            [of Map.empty unreachable "lit ''/x''" "Some []" None]
          u t
    by simp
qed

text \<open>
  C9. The headers of the request that \<open>apiGet\<close> sends are the \<open>Authorization\<close> header alone
  when the token is a string that is not empty, and none otherwise; so there is never a
  \<open>Content-Type\<close> header on a GET, while \<open>apiPost\<close> always sends one.
\<close>

theorem apiGet_headers:
  "req_headers (sent (apiGet env fetch path token))
     = (if truthy token then [(lit ''Authorization'', lit ''Bearer '' @ ToString token)] else []) \<and>
   length (req_headers (sent (apiGet env fetch path token))) \<le> 1 \<and>
   map_of (req_headers (sent (apiGet env fetch path token))) (lit ''Content-Type'') = None \<and>
   map_of (req_headers (sent (apiPost env fetch path body token))) (lit ''Content-Type'') \<noteq> None"
  using header_names_differ
  by (simp add: sent_apiGet sent_apiPost)

theorem apiGet_headers_witness:
  "req_headers (sent (apiGet Map.empty unreachable (lit ''/x'') (Some (lit ''tok123''))))
     = [(lit ''Authorization'', lit ''Bearer '' @ lit ''tok123'')] \<and>
   req_headers (sent (apiGet Map.empty unreachable (lit ''/x'') None)) = [] \<and>
   req_headers (sent (apiGet Map.empty unreachable (lit ''/x'') (Some []))) = []"
proof -
  have t: "truthy (Some (lit ''tok123''))" "\<not> truthy None" "\<not> truthy (Some [])"
    by (simp_all add: truthy_def lit_def)
  show ?thesis
    using apiGet_headers [of Map.empty unreachable "lit ''/x''" "Some (lit ''tok123'')"]
          apiGet_headers [of Map.empty unreachable "lit ''/x''" None]
          apiGet_headers [of Map.empty unreachable "lit ''/x''" "Some []"]
          t
    by simp
qed

section \<open>The two helpers compared, and repeated calls\<close>

text \<open>
  C8. Given the same response, \<open>apiPost\<close> settles exactly as \<open>apiGet\<close> does: both resolve
  to the same value, or both reject with the same error. This holds whatever the two
  calls' arguments, environments and transports are.
\<close>

theorem apiPost_settles_as_apiGet:
  assumes "fetchG (sent (apiGet envG fetchG pathG tokenG)) = Inr resp"
    and "fetchP (sent (apiPost envP fetchP pathP body tokenP)) = Inr resp"
  shows "settled (apiPost envP fetchP pathP body tokenP) = settled (apiGet envG fetchG pathG tokenG)"
  using assms by (simp add: settled_apiGet settled_apiPost)

theorem apiPost_settles_as_apiGet_witness:
  "settled (apiPost Map.empty
      (answering \<lparr> resp_ok = False, resp_status = 400,
                   resp_content_type = Some (lit ''application/json''),
                   resp_json = Inr (JStr (lit ''bad input'')),
                   resp_text = Inr ([0x22] @ lit ''bad input'' @ [0x22]) \<rparr>)
      (lit ''/x'') (Some (JObj [])) (Some (lit ''tok123'')))
     = settled (apiGet Map.empty
      (answering \<lparr> resp_ok = False, resp_status = 400,
                   resp_content_type = Some (lit ''application/json''),
                   resp_json = Inr (JStr (lit ''bad input'')),
                   resp_text = Inr ([0x22] @ lit ''bad input'' @ [0x22]) \<rparr>)
      (lit ''/y'') None) \<and>
   settled (apiGet Map.empty
      (answering \<lparr> resp_ok = False, resp_status = 400,
                   resp_content_type = Some (lit ''application/json''),
                   resp_json = Inr (JStr (lit ''bad input'')),
                   resp_text = Inr ([0x22] @ lit ''bad input'' @ [0x22]) \<rparr>)
      (lit ''/y'') None)
     = Inl (Error (lit ''bad input''))"
proof -
  let ?r = "\<lparr> resp_ok = False, resp_status = 400,
               resp_content_type = Some (lit ''application/json''),
               resp_json = Inr (JStr (lit ''bad input'')),
               resp_text = Inr ([0x22] @ lit ''bad input'' @ [0x22]) \<rparr>"
  have inc: "js_includes (lit ''application/json'') (lit ''application/json'')"
    by (simp add: lit_def)
  have ne: "lit ''application/json'' \<noteq> []"
    by (simp add: lit_def)
  have same: "settled (apiPost Map.empty (answering ?r) (lit ''/x'') (Some (JObj []))
                 (Some (lit ''tok123'')))
                = settled (apiGet Map.empty (answering ?r) (lit ''/y'') None)"
    using apiPost_settles_as_apiGet
            [of "answering ?r" Map.empty "lit ''/y''" None ?r
                "answering ?r" Map.empty "lit ''/x''" "Some (JObj [])" "Some (lit ''tok123'')"]
    by (simp add: answering_def)
  have val: "settled (apiGet Map.empty (answering ?r) (lit ''/y'') None)
               = Inl (Error (lit ''bad input''))"
    using inc ne
    by (simp add: settled_apiGet answering_def settle_response_def decode_body_def
          or_string_def failure_message_def)
  from same val show ?thesis
    by (intro conjI)
qed

text \<open>
  C10. The helpers keep nothing between calls: each result is a function of the
  arguments, of the value that \<open>REACT_APP_BACKEND_URL\<close> has when the call is made, and
  of what the transport answers to the one request the call sends. Two calls that agree
  on these send the same request and settle alike, whatever else differs in the
  environment or in the transport.
\<close>

theorem helpers_deterministic:
  assumes "env1 (lit ''REACT_APP_BACKEND_URL'') = env2 (lit ''REACT_APP_BACKEND_URL'')"
    and "fetch1 (sent (apiGet env1 fetch1 path token)) = fetch2 (sent (apiGet env2 fetch2 path token))"
    and "fetch1 (sent (apiPost env1 fetch1 path body token))
           = fetch2 (sent (apiPost env2 fetch2 path body token))"
  shows "getBackendBaseUrl env1 = getBackendBaseUrl env2 \<and>
         apiGet env1 fetch1 path token = apiGet env2 fetch2 path token \<and>
         apiPost env1 fetch1 path body token = apiPost env2 fetch2 path body token"
proof -
  have base: "getBackendBaseUrl env1 = getBackendBaseUrl env2"
    using assms(1) by (simp add: getBackendBaseUrl_def)
  have "sent (apiGet env1 fetch1 path token) = sent (apiGet env2 fetch2 path token)"
    by (simp add: sent_apiGet base)
  moreover have "settled (apiGet env1 fetch1 path token) = settled (apiGet env2 fetch2 path token)"
    using assms(2) by (simp add: settled_apiGet)
  ultimately have get: "apiGet env1 fetch1 path token = apiGet env2 fetch2 path token"
    by (simp add: sent_def settled_def prod_eq_iff)
  have "sent (apiPost env1 fetch1 path body token) = sent (apiPost env2 fetch2 path body token)"
    by (simp add: sent_apiPost base)
  moreover have "settled (apiPost env1 fetch1 path body token)
                   = settled (apiPost env2 fetch2 path body token)"
    using assms(3) by (simp add: settled_apiPost)
  ultimately have post: "apiPost env1 fetch1 path body token = apiPost env2 fetch2 path body token"
    by (simp add: sent_def settled_def prod_eq_iff)
  from base get post show ?thesis
    by (intro conjI)
qed

theorem helpers_deterministic_witness:
  "apiGet [lit ''REACT_APP_BACKEND_URL'' \<mapsto> lit ''http://api.test'']
      (answering \<lparr> resp_ok = True, resp_status = 200,
                   resp_content_type = Some (lit ''text/plain''),
                   resp_json = Inl (Exn (lit ''SyntaxError'') (lit ''Unexpected token'')),
                   resp_text = Inr (lit ''hello'') \<rparr>)
      (lit ''/x'') (Some (lit ''tok123''))
     = apiGet [lit ''REACT_APP_BACKEND_URL'' \<mapsto> lit ''http://api.test'',
               lit ''NODE_ENV'' \<mapsto> lit ''test'']
      (answering \<lparr> resp_ok = True, resp_status = 200,
                   resp_content_type = Some (lit ''text/plain''),
                   resp_json = Inl (Exn (lit ''SyntaxError'') (lit ''Unexpected token'')),
                   resp_text = Inr (lit ''hello'') \<rparr>)
      (lit ''/x'') (Some (lit ''tok123'')) \<and>
   apiPost [lit ''REACT_APP_BACKEND_URL'' \<mapsto> lit ''http://api.test'']
      (answering \<lparr> resp_ok = True, resp_status = 200,
                   resp_content_type = Some (lit ''text/plain''),
                   resp_json = Inl (Exn (lit ''SyntaxError'') (lit ''Unexpected token'')),
                   resp_text = Inr (lit ''hello'') \<rparr>)
      (lit ''/x'') None (Some (lit ''tok123''))
     = apiPost [lit ''REACT_APP_BACKEND_URL'' \<mapsto> lit ''http://api.test'',
                lit ''NODE_ENV'' \<mapsto> lit ''test'']
      (answering \<lparr> resp_ok = True, resp_status = 200,
                   resp_content_type = Some (lit ''text/plain''),
                   resp_json = Inl (Exn (lit ''SyntaxError'') (lit ''Unexpected token'')),
                   resp_text = Inr (lit ''hello'') \<rparr>)
      (lit ''/x'') None (Some (lit ''tok123''))"
proof -
  let ?r = "\<lparr> resp_ok = True, resp_status = 200,
               resp_content_type = Some (lit ''text/plain''),
               resp_json = Inl (Exn (lit ''SyntaxError'') (lit ''Unexpected token'')),
               resp_text = Inr (lit ''hello'') \<rparr>"
  have names: "lit ''REACT_APP_BACKEND_URL'' \<noteq> lit ''NODE_ENV''"
    by (simp add: lit_def)
  show ?thesis
    using helpers_deterministic
            [of "[lit ''REACT_APP_BACKEND_URL'' \<mapsto> lit ''http://api.test'']"
                "[lit ''REACT_APP_BACKEND_URL'' \<mapsto> lit ''http://api.test'',
                  lit ''NODE_ENV'' \<mapsto> lit ''test'']"
                "answering ?r" "lit ''/x''" "Some (lit ''tok123'')" "answering ?r" None]
          names
    by (simp add: answering_def)
qed

end
